theory Spec2Isabelle
  imports Main
begin

section \<open>The Python built-ins that app.py calls\<close>

text \<open>
  The program is one script, \<^verbatim>\<open>app/app.py\<close>. Its start-up code is
  \<^verbatim>\<open>
  if __name__ == '__main__':
      port = int(os.environ.get('PORT', 5000))
      app.run(host='0.0.0.0', port=port, debug=False)
  \<close>
  A Python \<^verbatim>\<open>str\<close> is modelled as a \<^typ>\<open>string\<close>, each \<^typ>\<open>char\<close> read as
  a code point below 256. Python's integers are unbounded: \<^typ>\<open>int\<close>. The
  interpreter is CPython with its default settings; running out of memory is not part of
  the model.
\<close>

datatype failure = ValueError | BindRefused

datatype pyval = PyStr string | PyInt int

type_synonym environ = "string \<rightharpoonup> string"

text \<open>\<^verbatim>\<open>os.environ.get(key, default)\<close>: the value of the variable, a \<^verbatim>\<open>str\<close>, or
  the default as it was passed (here the integer 5000, not a string).\<close>

definition environ_get :: "environ \<Rightarrow> string \<Rightarrow> pyval \<Rightarrow> pyval" where
  "environ_get env key dflt = (case env key of None \<Rightarrow> dflt | Some v \<Rightarrow> PyStr v)"

text \<open>
  \<^verbatim>\<open>int(x)\<close> returns an integer argument as it is. A string must be an integer
  literal in base 10: optional surrounding whitespace, an optional sign directly before
  the digits, and decimal digits with single underscores allowed between two digits;
  anything else raises \<^verbatim>\<open>ValueError\<close>. Among the code points below 256 the
  whitespace that \<^verbatim>\<open>int\<close> skips is TAB, LF, VT, FF, CR, space, NEL (0x85) and
  the no-break space (0xA0), and the decimal digits are \<^verbatim>\<open>0\<close> to \<^verbatim>\<open>9\<close>.

  CPython also refuses to convert a literal that has more digits than its limit,
  \<^verbatim>\<open>sys.int_info.default_max_str_digits\<close>, which is 4300: it counts the digit
  characters of the literal, leading zeros included and underscores not, and raises
  \<^verbatim>\<open>ValueError\<close> when there are more.
\<close>

definition py_isspace :: "char \<Rightarrow> bool" where
  "py_isspace c = (c \<in> {CHR 0x09, CHR 0x0A, CHR 0x0B, CHR 0x0C, CHR 0x0D, CHR 0x20,
                         CHR 0x85, CHR 0xA0})"

definition is_digit :: "char \<Rightarrow> bool" where
  "is_digit c = (48 \<le> (of_char c :: nat) \<and> (of_char c :: nat) \<le> 57)"

definition digit_val :: "char \<Rightarrow> nat" where
  "digit_val c = of_char c - 48"

definition strip :: "string \<Rightarrow> string" where
  "strip s = rev (dropWhile py_isspace (rev (dropWhile py_isspace s)))"

fun split_sign :: "string \<Rightarrow> bool \<times> string" where
  "split_sign [] = (False, [])"
| "split_sign (c # cs) =
     (if c = CHR ''-'' then (True, cs)
      else if c = CHR ''+'' then (False, cs)
      else (False, c # cs))"

text \<open>The digit part of a literal: a digit, then digits each optionally preceded by one
  underscore.\<close>

fun digitpart :: "string \<Rightarrow> bool" where
  "digitpart [] = False"
| "digitpart [c] = is_digit c"
| "digitpart (c # d # cs) =
     (is_digit c \<and> (if d = CHR ''_'' then digitpart cs else digitpart (d # cs)))"

definition digits_value :: "string \<Rightarrow> nat" where
  "digits_value ds = foldl (\<lambda>a c. 10 * a + digit_val c) 0 (filter is_digit ds)"

definition int_literal :: "string \<Rightarrow> bool" where
  "int_literal s = digitpart (snd (split_sign (strip s)))"

definition max_str_digits :: nat where
  "max_str_digits = 4300"

definition within_limit :: "string \<Rightarrow> bool" where
  "within_limit s =
     (length (filter is_digit (snd (split_sign (strip s)))) \<le> max_str_digits)"

definition py_int_str :: "string \<Rightarrow> failure + int" where
  "py_int_str s =
     (case split_sign (strip s) of
        (neg, ds) \<Rightarrow>
          if digitpart ds \<and> length (filter is_digit ds) \<le> max_str_digits
          then Inr (if neg then - int (digits_value ds) else int (digits_value ds))
          else Inl ValueError)"

fun py_int :: "pyval \<Rightarrow> failure + int" where
  "py_int (PyInt i) = Inr i"
| "py_int (PyStr s) = py_int_str s"





section \<open>Start-up\<close>

text \<open>
  The network layer is a parameter of the model: the set of addresses (host, port) that
  it refuses to bind, because the port is taken, privileged or out of range.
\<close>

type_synonym network = "(string \<times> int) set"

datatype outcome = Serving string int | Uncaught failure

record process =
  bind_calls :: "(string \<times> int) list"
  final :: outcome

text \<open>
  Modelled from the spec: \<^verbatim>\<open>app.run\<close> is the framework's, not under src/. The spec
  gives it one effect, binding the listen address, and one failure, the network layer
  refusing the bind, which is fatal. The debug flag changes neither.
\<close>

definition app_run :: "network \<Rightarrow> string \<Rightarrow> int \<Rightarrow> bool \<Rightarrow> process" where
  "app_run net h p dbg =
     \<lparr>bind_calls = [(h, p)],
      final = (if (h, p) \<in> net then Uncaught BindRefused else Serving h p)\<rparr>"

text \<open>The script's main block. An exception of the conversion leaves the block before
  \<^verbatim>\<open>app.run\<close> is reached.\<close>

definition main :: "network \<Rightarrow> environ \<Rightarrow> process" where
  "main net env =
     (case py_int (environ_get env ''PORT'' (PyInt 5000)) of
        Inl e \<Rightarrow> \<lparr>bind_calls = [], final = Uncaught e\<rparr>
      | Inr port \<Rightarrow> app_run net ''0.0.0.0'' port False)"



section \<open>The web application\<close>

text \<open>
  The rest of the script builds the application object and registers three views:
  \<^verbatim>\<open>
  app = Flask(__name__)

  @app.route('/')
  def home():
      return jsonify({"message": "Welcome to DevSecOps Container Security Demo!",
                      "status": "running", "version": "1.0.0"})

  @app.route('/health')
  def health():
      return jsonify({"status": "healthy", "service": "devsecops-demo"}), 200

  @app.route('/info')
  def info():
      return jsonify({"app": "DevSecOps Demo Application",
                      "description": "Sample app for container vulnerability scanning",
                      "security": "Scanned with Trivy", "pipeline": "GitHub Actions"})
  \<close>
  A dictionary literal with string keys and string values is an association list in the
  order of the source.
\<close>

type_synonym json_object = "(string \<times> string) list"

datatype payload = Json json_object | ErrorPage

record response =
  status_code :: nat
  headers :: "(string \<times> string) list"
  data :: payload

record request =
  req_method :: string
  path :: string
  query_string :: string
  req_headers :: "(string \<times> string) list"
  req_body :: string

text \<open>
  Modelled from the spec: \<^verbatim>\<open>jsonify\<close> is the framework's, not under src/. By the
  spec it returns the object JSON-encoded, with the default status 200 and the header
  \<^verbatim>\<open>Content-Type: application/json\<close>.
\<close>

definition jsonify :: "json_object \<Rightarrow> response" where
  "jsonify d =
     \<lparr>status_code = 200, headers = [(''Content-Type'', ''application/json'')], data = Json d\<rparr>"

text \<open>What a view returns: a response, or the pair of a response and a status code.\<close>

datatype view_rv = Rv response | RvStatus response nat

definition home :: "unit \<Rightarrow> view_rv" where
  "home u =
     Rv (jsonify
       [(''message'', ''Welcome to DevSecOps Container Security Demo!''),
        (''status'', ''running''),
        (''version'', ''1.0.0'')])"

definition health :: "unit \<Rightarrow> view_rv" where
  "health u =
     RvStatus (jsonify
       [(''status'', ''healthy''),
        (''service'', ''devsecops-demo'')]) 200"

definition info :: "unit \<Rightarrow> view_rv" where
  "info u =
     Rv (jsonify
       [(''app'', ''DevSecOps Demo Application''),
        (''description'', ''Sample app for container vulnerability scanning''),
        (''security'', ''Scanned with Trivy''),
        (''pipeline'', ''GitHub Actions'')])"

record url_rule =
  rule_path :: string
  methods :: "string list"
  endpoint :: string

record flask =
  url_map :: "url_rule list"
  view_functions :: "(string \<times> (unit \<Rightarrow> view_rv)) list"

text \<open>
  Modelled from the spec: the application object, the \<^verbatim>\<open>route\<close> decorator and the
  dispatch of a request are the framework's, not under src/. By the spec a route is a
  (path, handler) pair that accepts only the default method GET, a request is dispatched
  to a handler by its path, and a path that no route has gets the default not-found
  response, status 404. A request's path does not include its query string. What the
  framework adds of its own (static files, redirects that normalise a path, HEAD and
  OPTIONS) is outside the model; a method that the route does not accept gets status 405
  and a missing view status 500.
\<close>

definition Flask :: flask where
  "Flask = \<lparr>url_map = [], view_functions = []\<rparr>"

definition route :: "string \<Rightarrow> string \<Rightarrow> (unit \<Rightarrow> view_rv) \<Rightarrow> flask \<Rightarrow> flask" where
  "route p name f a =
     a\<lparr>url_map := url_map a @ [\<lparr>rule_path = p, methods = [''GET''], endpoint = name\<rparr>],
       view_functions := view_functions a @ [(name, f)]\<rparr>"

definition error_response :: "nat \<Rightarrow> response" where
  "error_response code =
     \<lparr>status_code = code, headers = [(''Content-Type'', ''text/html; charset=utf-8'')],
      data = ErrorPage\<rparr>"

definition not_found :: response where
  "not_found = error_response 404"

fun make_response :: "view_rv \<Rightarrow> response" where
  "make_response (Rv r) = r"
| "make_response (RvStatus r s) = r\<lparr>status_code := s\<rparr>"

definition match_path :: "flask \<Rightarrow> string \<Rightarrow> url_rule list" where
  "match_path a p = filter (\<lambda>r. rule_path r = p) (url_map a)"

definition dispatch_request :: "flask \<Rightarrow> request \<Rightarrow> response" where
  "dispatch_request a req =
     (case match_path a (path req) of
        [] \<Rightarrow> not_found
      | r # rs \<Rightarrow>
          (case find (\<lambda>r. req_method req \<in> set (methods r)) (r # rs) of
             None \<Rightarrow> error_response 405
           | Some r \<Rightarrow>
               (case map_of (view_functions a) (endpoint r) of
                  None \<Rightarrow> error_response 500
                | Some f \<Rightarrow> make_response (f ()))))"

text \<open>The application object of the script, after its three registrations.\<close>

definition app :: flask where
  "app = route ''/info'' ''info'' info
          (route ''/health'' ''health'' health
            (route ''/'' ''home'' home Flask))"

section \<open>Facts about the built-ins\<close>






















lemma py_int_str_invalid: "\<not> int_literal s \<Longrightarrow> py_int_str s = Inl ValueError"
  by (cases "split_sign (strip s)") (simp add: py_int_str_def int_literal_def)


lemma py_int_str_rejects:
  "\<not> int_literal s \<or> \<not> within_limit s \<Longrightarrow> py_int_str s = Inl ValueError"
  by (cases "split_sign (strip s)")
    (auto simp add: py_int_str_def int_literal_def within_limit_def)

section \<open>Facts about start-up\<close>


lemma main_set:
  "env ''PORT'' = Some s \<Longrightarrow>
     main net env =
       (case py_int_str s of
          Inl e \<Rightarrow> \<lparr>bind_calls = [], final = Uncaught e\<rparr>
        | Inr p \<Rightarrow> app_run net ''0.0.0.0'' p False)"
  by (simp add: main_def environ_get_def)

section \<open>Facts about routing\<close>

lemma url_map_app:
  "url_map app =
     [\<lparr>rule_path = ''/'', methods = [''GET''], endpoint = ''home''\<rparr>,
      \<lparr>rule_path = ''/health'', methods = [''GET''], endpoint = ''health''\<rparr>,
      \<lparr>rule_path = ''/info'', methods = [''GET''], endpoint = ''info''\<rparr>]"
  by (simp add: app_def route_def Flask_def)

lemma view_functions_app:
  "view_functions app = [(''home'', home), (''health'', health), (''info'', info)]"
  by (simp add: app_def route_def Flask_def)

lemma match_path_app:
  "match_path app p =
     (if p = ''/'' then [\<lparr>rule_path = ''/'', methods = [''GET''], endpoint = ''home''\<rparr>]
      else if p = ''/health''
        then [\<lparr>rule_path = ''/health'', methods = [''GET''], endpoint = ''health''\<rparr>]
      else if p = ''/info''
        then [\<lparr>rule_path = ''/info'', methods = [''GET''], endpoint = ''info''\<rparr>]
      else [])"
  by (auto simp add: match_path_def url_map_app)

lemma dispatch_home:
  "req_method req = ''GET'' \<Longrightarrow> path req = ''/'' \<Longrightarrow>
     dispatch_request app req = make_response (home ())"
  by (simp add: dispatch_request_def match_path_app view_functions_app)

lemma dispatch_health:
  "req_method req = ''GET'' \<Longrightarrow> path req = ''/health'' \<Longrightarrow>
     dispatch_request app req = make_response (health ())"
  by (simp add: dispatch_request_def match_path_app view_functions_app)

lemma dispatch_info:
  "req_method req = ''GET'' \<Longrightarrow> path req = ''/info'' \<Longrightarrow>
     dispatch_request app req = make_response (info ())"
  by (simp add: dispatch_request_def match_path_app view_functions_app)

lemma dispatch_undefined:
  "path req \<noteq> ''/'' \<Longrightarrow> path req \<noteq> ''/health'' \<Longrightarrow> path req \<noteq> ''/info'' \<Longrightarrow>
     dispatch_request app req = not_found"
  by (simp add: dispatch_request_def match_path_app)

lemma dispatch_depends_on:
  "req_method r1 = req_method r2 \<Longrightarrow> path r1 = path r2 \<Longrightarrow>
     dispatch_request a r1 = dispatch_request a r2"
  unfolding dispatch_request_def by (simp split: list.split)


section \<open>The claims\<close>

text \<open>
  C1. Every GET request to the path \<^verbatim>\<open>/\<close> is answered with status 200 and with
  the JSON object of exactly the three fields message, status and version, each with the
  value the source gives it.
\<close>

theorem home_response:
  assumes "req_method req = ''GET''" and "path req = ''/''"
  shows "status_code (dispatch_request app req) = 200
       \<and> data (dispatch_request app req) =
           Json [(''message'', ''Welcome to DevSecOps Container Security Demo!''),
                 (''status'', ''running''),
                 (''version'', ''1.0.0'')]"
  using assms by (simp add: dispatch_home home_def jsonify_def)

theorem home_response_witness:
  "status_code (dispatch_request app
      \<lparr>req_method = ''GET'', path = ''/'', query_string = ''x=1'',
       req_headers = [(''Accept'', ''text/html'')], req_body = []\<rparr>) = 200
   \<and> data (dispatch_request app
      \<lparr>req_method = ''GET'', path = ''/'', query_string = ''x=1'',
       req_headers = [(''Accept'', ''text/html'')], req_body = []\<rparr>) =
        Json [(''message'', ''Welcome to DevSecOps Container Security Demo!''),
              (''status'', ''running''),
              (''version'', ''1.0.0'')]"
  using home_response [of "\<lparr>req_method = ''GET'', path = ''/'', query_string = ''x=1'',
       req_headers = [(''Accept'', ''text/html'')], req_body = []\<rparr>"]
  by simp

text \<open>
  C2. Every GET request to the path \<^verbatim>\<open>/health\<close> is answered with status 200 and
  with the JSON object of exactly the two fields status and service. This view returns
  its status code explicitly, as the second component of a pair; the other two views
  return a response only.
\<close>

theorem health_response:
  assumes "req_method req = ''GET''" and "path req = ''/health''"
  shows "status_code (dispatch_request app req) = 200
       \<and> data (dispatch_request app req) =
           Json [(''status'', ''healthy''), (''service'', ''devsecops-demo'')]
       \<and> (\<exists>r. health () = RvStatus r 200)
       \<and> (\<exists>r. home () = Rv r) \<and> (\<exists>r. info () = Rv r)"
  using assms by (simp add: dispatch_health health_def home_def info_def jsonify_def)

theorem health_response_witness:
  "status_code (dispatch_request app
      \<lparr>req_method = ''GET'', path = ''/health'', query_string = [],
       req_headers = [], req_body = ''ping''\<rparr>) = 200
   \<and> data (dispatch_request app
      \<lparr>req_method = ''GET'', path = ''/health'', query_string = [],
       req_headers = [], req_body = ''ping''\<rparr>) =
        Json [(''status'', ''healthy''), (''service'', ''devsecops-demo'')]"
  using health_response [of "\<lparr>req_method = ''GET'', path = ''/health'', query_string = [],
       req_headers = [], req_body = ''ping''\<rparr>"]
  by simp

text \<open>
  C3. Every GET request to the path \<^verbatim>\<open>/info\<close> is answered with status 200 and with
  the JSON object of exactly the four fields app, description, security and pipeline.
\<close>

theorem info_response:
  assumes "req_method req = ''GET''" and "path req = ''/info''"
  shows "status_code (dispatch_request app req) = 200
       \<and> data (dispatch_request app req) =
           Json [(''app'', ''DevSecOps Demo Application''),
                 (''description'', ''Sample app for container vulnerability scanning''),
                 (''security'', ''Scanned with Trivy''),
                 (''pipeline'', ''GitHub Actions'')]"
  using assms by (simp add: dispatch_info info_def jsonify_def)

theorem info_response_witness:
  "status_code (dispatch_request app
      \<lparr>req_method = ''GET'', path = ''/info'', query_string = ''verbose'',
       req_headers = [], req_body = []\<rparr>) = 200
   \<and> data (dispatch_request app
      \<lparr>req_method = ''GET'', path = ''/info'', query_string = ''verbose'',
       req_headers = [], req_body = []\<rparr>) =
        Json [(''app'', ''DevSecOps Demo Application''),
              (''description'', ''Sample app for container vulnerability scanning''),
              (''security'', ''Scanned with Trivy''),
              (''pipeline'', ''GitHub Actions'')]"
  using info_response [of "\<lparr>req_method = ''GET'', path = ''/info'',
       query_string = ''verbose'', req_headers = [], req_body = []\<rparr>"]
  by simp




text \<open>
  C5. A request whose path is none of \<^verbatim>\<open>/\<close>, \<^verbatim>\<open>/health\<close> and \<^verbatim>\<open>/info\<close>,
  whatever its method, matches none of the three registered routes, and its response is
  the default not-found response, with status 404.
\<close>

theorem not_found_response:
  assumes "path req \<notin> {''/'', ''/health'', ''/info''}"
  shows "match_path app (path req) = []
       \<and> dispatch_request app req = not_found
       \<and> status_code (dispatch_request app req) = 404"
  using assms
  by (simp add: dispatch_undefined match_path_app not_found_def error_response_def)

theorem not_found_response_witness:
  "match_path app ''/admin'' = []
   \<and> status_code (dispatch_request app
        \<lparr>req_method = ''POST'', path = ''/admin'', query_string = [],
         req_headers = [], req_body = ''x''\<rparr>) = 404"
  using not_found_response [of "\<lparr>req_method = ''POST'', path = ''/admin'',
         query_string = [], req_headers = [], req_body = ''x''\<rparr>"]
  by (simp add: not_found_def error_response_def)

text \<open>
  C6. The response depends on nothing of a request but the route it goes to: two
  requests with the same method and the same path get the same response, status, headers
  and body, whatever their own headers, query strings and bodies are.
\<close>

theorem response_independent_of_request_contents:
  assumes "req_method r1 = req_method r2" and "path r1 = path r2"
  shows "dispatch_request app r1 = dispatch_request app r2"
  using assms by (rule dispatch_depends_on)

theorem response_independent_of_request_contents_witness:
  "dispatch_request app
     \<lparr>req_method = ''GET'', path = ''/info'', query_string = ''a=1'',
      req_headers = [(''Accept'', ''text/plain'')], req_body = []\<rparr>
   = dispatch_request app
     \<lparr>req_method = ''GET'', path = ''/info'', query_string = [],
      req_headers = [(''X-Debug'', ''1'')], req_body = ''payload''\<rparr>"
  using response_independent_of_request_contents
    [of "\<lparr>req_method = ''GET'', path = ''/info'', query_string = ''a=1'',
          req_headers = [(''Accept'', ''text/plain'')], req_body = []\<rparr>"
        "\<lparr>req_method = ''GET'', path = ''/info'', query_string = [],
          req_headers = [(''X-Debug'', ''1'')], req_body = ''payload''\<rparr>"]
  by simp




text \<open>
  C8. The response to a GET request to each of the three routes carries the header
  \<^verbatim>\<open>Content-Type: application/json\<close>.
\<close>

theorem content_type_json:
  assumes "req_method req = ''GET''" and "path req \<in> {''/'', ''/health'', ''/info''}"
  shows "map_of (headers (dispatch_request app req)) ''Content-Type''
       = Some ''application/json''"
  using assms
  by (auto simp add: dispatch_home dispatch_health dispatch_info home_def health_def
      info_def jsonify_def)

theorem content_type_json_witness:
  "map_of (headers (dispatch_request app
      \<lparr>req_method = ''GET'', path = ''/health'', query_string = [],
       req_headers = [(''Accept'', ''text/html'')], req_body = []\<rparr>)) ''Content-Type''
   = Some ''application/json''"
  using content_type_json [of "\<lparr>req_method = ''GET'', path = ''/health'',
       query_string = [], req_headers = [(''Accept'', ''text/html'')], req_body = []\<rparr>"]
  by simp

text \<open>
  C10. When \<^verbatim>\<open>PORT\<close> is set to a string that is not an integer literal, the
  conversion raises \<^verbatim>\<open>ValueError\<close>: the process ends with that exception uncaught,
  it has asked for no address, and it serves on none.
\<close>

theorem invalid_port_raises:
  assumes "env ''PORT'' = Some s" and "\<not> int_literal s"
  shows "bind_calls (main net env) = []
       \<and> final (main net env) = Uncaught ValueError
       \<and> (\<forall>h p. final (main net env) \<noteq> Serving h p)"
  using assms by (simp add: main_set py_int_str_invalid)

theorem invalid_port_raises_witness:
  "\<not> int_literal ''80 80''
   \<and> bind_calls (main {} [''PORT'' \<mapsto> ''80 80'']) = []
   \<and> final (main {} [''PORT'' \<mapsto> ''80 80'']) = Uncaught ValueError"
proof -
  have bad: "\<not> int_literal ''80 80''"
    by (simp add: int_literal_def strip_def py_isspace_def is_digit_def)
  show ?thesis
    using bad invalid_port_raises
      [where env = "[''PORT'' \<mapsto> ''80 80'']" and s = "''80 80''" and net = "{}"]
    by simp
qed

end
